theory Spec2Isabelle
  imports Complex_Main "HOL-Library.Sublist" "HOL-Library.Word"
begin

section \<open>Values, rows and tables\<close>

text \<open>
  \<^verbatim>\<open>Happy_app.py\<close> is one Streamlit script over a pandas DataFrame read from
  \<^verbatim>\<open>World Happiness Report Data - Sheet1.csv\<close>. The embedding follows the columns the
  script names: \<^verbatim>\<open>Country name\<close> holds strings, \<^verbatim>\<open>year\<close> is made a column of
  64-bit integers by \<^verbatim>\<open>load_data\<close>, and \<^verbatim>\<open>Life Ladder\<close>, \<^verbatim>\<open>Log GDP per capita\<close>,
  \<^verbatim>\<open>Social support\<close> and \<^verbatim>\<open>Healthy life expectancy at birth\<close> are float columns in
  which a missing entry is NaN. A loaded table is taken to have these six columns with
  these types, so that reading one of them by name does not raise; any further column is
  kept as it is. Whether the file has a \<^verbatim>\<open>year\<close> column at all, and what its entries
  are, is left to the loader. The memoization of \<^verbatim>\<open>load_data\<close> by \<^verbatim>\<open>st.cache_data\<close> is
  not modelled.

  A float is either NaN or a number. Numbers are taken as reals: the rounding of
  float64 arithmetic and the infinities are not modelled.
\<close>

datatype pyfloat = NaN | Val real

text \<open>A cell of a column the script does not touch by name, or of the downloaded file.\<close>

datatype cell = StrCell string | IntCell int | FloatCell pyfloat

text \<open>The exceptions that can leave the modelled statements, with Python's class names.\<close>

datatype py_error =
    FileNotFoundError
  | PermissionError
  | EmptyDataError
  | ParserError
  | UnicodeDecodeError
  | ValueError
  | OverflowError
  | KeyError string

fun exception_name :: "py_error \<Rightarrow> string" where
  "exception_name FileNotFoundError = ''FileNotFoundError''"
| "exception_name PermissionError = ''PermissionError''"
| "exception_name EmptyDataError = ''EmptyDataError''"
| "exception_name ParserError = ''ParserError''"
| "exception_name UnicodeDecodeError = ''UnicodeDecodeError''"
| "exception_name ValueError = ''ValueError''"
| "exception_name OverflowError = ''OverflowError''"
| "exception_name (KeyError k) = ''KeyError''"

text \<open>
  One row of the table. The type of the \<^verbatim>\<open>year\<close> entry is a parameter: it is an
  entry of the column as \<^verbatim>\<open>pd.read_csv\<close> returns it (\<open>year_entry\<close>, below) and an
  \<^typ>\<open>int\<close>, the value of a 64-bit integer, after \<^verbatim>\<open>astype(int)\<close>. \<open>rest\<close> holds the
  entries of every other column, by column name.
\<close>

record 'y row =
  country_name :: string
  year :: 'y
  life_ladder :: pyfloat
  log_gdp_per_capita :: pyfloat
  social_support :: pyfloat
  healthy_life_expectancy :: pyfloat
  rest :: "(string \<times> cell) list"

text \<open>
  A DataFrame: the column labels in order, and the rows in order, each with its index
  label (\<^verbatim>\<open>read_csv\<close> numbers them; boolean indexing keeps the labels of the rows it keeps).
\<close>

record 'y frame =
  columns :: "string list"
  rows :: "(nat \<times> 'y row) list"

type_synonym 'a series = "'a list"

text \<open>\<^verbatim>\<open>df[name]\<close> for the columns the script reads: the values in row order.\<close>

definition getitem :: "('y row \<Rightarrow> 'a) \<Rightarrow> 'y frame \<Rightarrow> 'a series" where
  "getitem field df = map (\<lambda>(label, r). field r) (rows df)"

text \<open>\<^verbatim>\<open>df.empty\<close>: some axis has length 0.\<close>

definition df_empty :: "'y frame \<Rightarrow> bool" where
  "df_empty df = (rows df = [] \<or> columns df = [])"

section \<open>The loader (lines 7 to 11)\<close>

text \<open>
  \<^verbatim>\<open>
  def load_data():
      data = pd.read_csv("World Happiness Report Data - Sheet1.csv")
      data['year'] = data['year'].astype(int)
      return data
  \<close>
  The outcome of \<^verbatim>\<open>pd.read_csv\<close> is the input of the model: the exception it raised
  (\<^verbatim>\<open>FileNotFoundError\<close> for a missing file, \<^verbatim>\<open>PermissionError\<close>,
  \<^verbatim>\<open>EmptyDataError\<close>, \<^verbatim>\<open>ParserError\<close> or \<^verbatim>\<open>UnicodeDecodeError\<close> for one it cannot read
  or parse), or the table it built. No statement of \<^verbatim>\<open>load_data\<close> catches an exception.

  Without a \<^verbatim>\<open>dtype\<close> argument \<^verbatim>\<open>read_csv\<close> gives a column one of five types, and an
  entry of the \<^verbatim>\<open>year\<close> column is accordingly
  \<^item> a signed 64-bit integer (int64), when every entry is an integer that fits;
  \<^item> an unsigned 64-bit integer (uint64), when none is negative and one is \<open>2^63\<close> or more;
  \<^item> a float, NaN where the field is empty, or an infinity (float64);
  \<^item> a boolean (bool);
  \<^item> the text of the field, in a column of Python objects: this is what is left of a
    field that is no number, and of an integer beyond 64 bits. An empty field of such a
    column is the float NaN.
\<close>

datatype year_entry =
    Int64 "64 word"
  | UInt64 "64 word"
  | Float64 pyfloat
  | Infinite
  | Bool bool
  | Text string

text \<open>
  \<^verbatim>\<open>astype(int)\<close>, with \<^verbatim>\<open>int\<close> the 64-bit integer type (as on Linux and macOS, and
  everywhere with numpy 2), entry by entry in the order of the rows:
  \<^item> an int64 stays; a uint64 keeps its 64 bits, so that \<open>2^63\<close> and above wrap around
    to negative values;
  \<^item> NaN and the infinities raise \<^verbatim>\<open>ValueError\<close> (pandas' \<^verbatim>\<open>IntCastingNaNError\<close> is a
    subclass); any other float loses its fraction (towards zero), and when the result does
    not fit 64 bits the C conversion leaves what the processor gives, which is the
    parameter \<open>c_cast\<close>; no exception is raised;
  \<^item> a boolean becomes 1 or 0;
  \<^item> on a text Python's \<^verbatim>\<open>int\<close> is called, which is the parameter \<open>py_int\<close>
    (\<open>None\<close> where \<^verbatim>\<open>int\<close> raises \<^verbatim>\<open>ValueError\<close>), and an integer that does not fit
    64 bits raises \<^verbatim>\<open>OverflowError\<close>.
\<close>

fun astype_int ::
  "(string \<Rightarrow> int option) \<Rightarrow> (real \<Rightarrow> 64 word) \<Rightarrow> year_entry \<Rightarrow> py_error + int" where
  "astype_int py_int c_cast (Int64 w) = Inr (sint w)"
| "astype_int py_int c_cast (UInt64 w) = Inr (sint w)"
| "astype_int py_int c_cast (Float64 NaN) = Inl ValueError"
| "astype_int py_int c_cast (Float64 (Val x)) =
     (let t = (if 0 \<le> x then \<lfloor>x\<rfloor> else \<lceil>x\<rceil>)
      in Inr (if - (2 ^ 63) \<le> t \<and> t < 2 ^ 63 then t else sint (c_cast x)))"
| "astype_int py_int c_cast Infinite = Inl ValueError"
| "astype_int py_int c_cast (Bool b) = Inr (if b then 1 else 0)"
| "astype_int py_int c_cast (Text s) =
     (case py_int s of
        None \<Rightarrow> Inl ValueError
      | Some i \<Rightarrow> if - (2 ^ 63) \<le> i \<and> i < 2 ^ 63 then Inr i else Inl OverflowError)"

definition with_year :: "'a row \<Rightarrow> 'b \<Rightarrow> 'b row" where
  "with_year r y =
     \<lparr>country_name = country_name r, year = y, life_ladder = life_ladder r,
      log_gdp_per_capita = log_gdp_per_capita r, social_support = social_support r,
      healthy_life_expectancy = healthy_life_expectancy r, rest = rest r\<rparr>"

fun astype_int_rows ::
  "(string \<Rightarrow> int option) \<Rightarrow> (real \<Rightarrow> 64 word) \<Rightarrow> (nat \<times> year_entry row) list
     \<Rightarrow> py_error + (nat \<times> int row) list" where
  "astype_int_rows py_int c_cast [] = Inr []"
| "astype_int_rows py_int c_cast ((label, r) # rs) =
     (case astype_int py_int c_cast (year r) of
        Inl e \<Rightarrow> Inl e
      | Inr y \<Rightarrow>
          (case astype_int_rows py_int c_cast rs of
             Inl e \<Rightarrow> Inl e
           | Inr rs' \<Rightarrow> Inr ((label, with_year r y) # rs')))"

text \<open>
  \<^verbatim>\<open>data['year']\<close> raises \<^verbatim>\<open>KeyError\<close> when the table has no column of that label; in
  such a table the \<open>year\<close> entries of the rows stand for nothing and are not read. The
  assignment puts the new column where the old one was.
\<close>

definition load_data ::
  "(string \<Rightarrow> int option) \<Rightarrow> (real \<Rightarrow> 64 word) \<Rightarrow> py_error + year_entry frame
     \<Rightarrow> py_error + int frame" where
  "load_data py_int c_cast read_csv =
     (case read_csv of
        Inl e \<Rightarrow> Inl e
      | Inr data \<Rightarrow>
          if ''year'' \<in> set (columns data) then
            (case astype_int_rows py_int c_cast (rows data) of
               Inl e \<Rightarrow> Inl e
             | Inr rs \<Rightarrow> Inr \<lparr>columns = columns data, rows = rs\<rparr>)
          else Inl (KeyError ''year''))"

section \<open>The filter (lines 38 to 42)\<close>

text \<open>
  \<^verbatim>\<open>
  filtered_data = data[
      (data['Country name'].isin(selected_countries)) &
      (data['year'] >= year_range[0]) &
      (data['year'] <= year_range[1])
  ]
  \<close>
  Each comparison builds a boolean Series over the rows of \<^verbatim>\<open>data\<close>, \<^verbatim>\<open>&\<close> combines two of
  them entry by entry, and indexing with the mask builds a new DataFrame of the rows whose
  entry is True.
\<close>

definition isin :: "string series \<Rightarrow> string list \<Rightarrow> bool series" where
  "isin s values = map (\<lambda>x. x \<in> set values) s"

definition series_ge :: "int series \<Rightarrow> int \<Rightarrow> bool series" where
  "series_ge s v = map (\<lambda>x. x \<ge> v) s"

definition series_le :: "int series \<Rightarrow> int \<Rightarrow> bool series" where
  "series_le s v = map (\<lambda>x. x \<le> v) s"

definition series_eq :: "string series \<Rightarrow> string \<Rightarrow> bool series" where
  "series_eq s v = map (\<lambda>x. x = v) s"

definition series_and :: "bool series \<Rightarrow> bool series \<Rightarrow> bool series" where
  "series_and a b = map (\<lambda>(x, y). x \<and> y) (zip a b)"

definition boolean_index :: "'y frame \<Rightarrow> bool series \<Rightarrow> 'y frame" where
  "boolean_index df key =
     \<lparr>columns = columns df, rows = map fst (filter snd (zip (rows df) key))\<rparr>"

definition filtered_data :: "int frame \<Rightarrow> string list \<Rightarrow> int \<times> int \<Rightarrow> int frame" where
  "filtered_data data selected_countries year_range =
     boolean_index data
       (series_and
          (series_and (isin (getitem country_name data) selected_countries)
                      (series_ge (getitem year data) (fst year_range)))
          (series_le (getitem year data) (snd year_range)))"

section \<open>Key metrics (lines 45 to 53)\<close>

text \<open>
  \<^verbatim>\<open>Series.mean()\<close>, \<^verbatim>\<open>.min()\<close> and \<^verbatim>\<open>.max()\<close> skip NaN (\<^verbatim>\<open>skipna=True\<close> is the
  default). The mean adds the values with every NaN replaced by 0 and divides by the
  number of values that are not NaN; with none of them the result is NaN. The minimum
  and the maximum ignore NaN entries and are NaN when there is no other entry.
\<close>

definition notna :: "pyfloat \<Rightarrow> bool" where
  "notna x = (x \<noteq> NaN)"

fun fillna :: "real \<Rightarrow> pyfloat \<Rightarrow> real" where
  "fillna d NaN = d"
| "fillna d (Val v) = v"

definition series_mean :: "pyfloat series \<Rightarrow> pyfloat" where
  "series_mean s =
     (let count = length (filter notna s);
          the_sum = sum_list (map (fillna 0) s)
      in if count = 0 then NaN else Val (the_sum / real count))"

fun nan_min :: "pyfloat \<Rightarrow> pyfloat \<Rightarrow> pyfloat" where
  "nan_min NaN y = y"
| "nan_min (Val a) NaN = Val a"
| "nan_min (Val a) (Val b) = Val (min a b)"

fun nan_max :: "pyfloat \<Rightarrow> pyfloat \<Rightarrow> pyfloat" where
  "nan_max NaN y = y"
| "nan_max (Val a) NaN = Val a"
| "nan_max (Val a) (Val b) = Val (max a b)"

definition series_min :: "pyfloat series \<Rightarrow> pyfloat" where
  "series_min s = foldl nan_min NaN s"

definition series_max :: "pyfloat series \<Rightarrow> pyfloat" where
  "series_max s = foldl nan_max NaN s"

text \<open>
  \<^verbatim>\<open>
  avg_score = filtered_data["Life Ladder"].mean()
  min_score = filtered_data["Life Ladder"].min()
  max_score = filtered_data["Life Ladder"].max()
  \<close>
\<close>

definition avg_score :: "int frame \<Rightarrow> pyfloat" where
  "avg_score filtered = series_mean (getitem life_ladder filtered)"

definition min_score :: "int frame \<Rightarrow> pyfloat" where
  "min_score filtered = series_min (getitem life_ladder filtered)"

definition max_score :: "int frame \<Rightarrow> pyfloat" where
  "max_score filtered = series_max (getitem life_ladder filtered)"

text \<open>
  The text of a metric: \<^verbatim>\<open>f"{x:.2f}" if not filtered_data.empty else "N/A"\<close>.
  \<open>Formatted x\<close> stands for the two-decimal rendering of \<open>x\<close>, which is the text
  \<^verbatim>\<open>nan\<close> when \<open>x\<close> is NaN.
\<close>

datatype metric_text = NA | Formatted pyfloat

record key_statistics =
  average_happiness :: metric_text
  lowest_score :: metric_text
  highest_score :: metric_text

definition key_statistics :: "int frame \<Rightarrow> key_statistics" where
  "key_statistics filtered =
     \<lparr>average_happiness = (if \<not> df_empty filtered then Formatted (avg_score filtered) else NA),
      lowest_score = (if \<not> df_empty filtered then Formatted (min_score filtered) else NA),
      highest_score = (if \<not> df_empty filtered then Formatted (max_score filtered) else NA)\<rparr>"

section \<open>Integers as text\<close>

text \<open>\<^verbatim>\<open>str\<close> of an integer: the decimal digits, with a minus sign below zero.\<close>

fun str_nat :: "nat \<Rightarrow> string" where
  "str_nat n =
     (if n < 10 then [''0123456789'' ! n]
      else str_nat (n div 10) @ [''0123456789'' ! (n mod 10)])"

declare str_nat.simps [simp del]

definition str_int :: "int \<Rightarrow> string" where
  "str_int i = (if i < 0 then CHR ''-'' # str_nat (nat (- i)) else str_nat (nat i))"

section \<open>The Insights tab (lines 59 to 79)\<close>

text \<open>
  \<^verbatim>\<open>
  if len(selected_countries) == 1:
      country_data = data[data['Country name'] == selected_countries[0]]
      if not country_data.empty:
          st.markdown(f"""... {country_data['Life Ladder'].mean():.2f} ...
            {country_data['Life Ladder'].max():.2f}
            (Year: {country_data.loc[country_data['Life Ladder'].idxmax(), 'year']}) ...""")
      else:
          st.write("No data available for this country.")
  else:
      st.write("Select a single country for detailed insights.")
  \<close>
  \<^verbatim>\<open>idxmax\<close> and \<^verbatim>\<open>idxmin\<close> give the index label of the first entry that holds the
  maximum (minimum) of the entries that are not NaN. With no such entry pandas 2 gives NaN
  (with a warning), and \<^verbatim>\<open>.loc\<close> then raises \<^verbatim>\<open>KeyError\<close>. \<^verbatim>\<open>.loc[label, 'year']\<close> is the
  year of the rows that carry the label: one number when the label is unique.
\<close>

definition items :: "('y row \<Rightarrow> 'a) \<Rightarrow> 'y frame \<Rightarrow> (nat \<times> 'a) list" where
  "items field df = map (\<lambda>(label, r). (label, field r)) (rows df)"

definition idxmax :: "(nat \<times> pyfloat) list \<Rightarrow> nat option" where
  "idxmax s =
     (case series_max (map snd s) of
        NaN \<Rightarrow> None
      | Val m \<Rightarrow> map_option fst (find (\<lambda>(label, v). v = Val m) s))"

definition idxmin :: "(nat \<times> pyfloat) list \<Rightarrow> nat option" where
  "idxmin s =
     (case series_min (map snd s) of
        NaN \<Rightarrow> None
      | Val m \<Rightarrow> map_option fst (find (\<lambda>(label, v). v = Val m) s))"

definition loc_year :: "int frame \<Rightarrow> nat option \<Rightarrow> py_error + int list" where
  "loc_year df key =
     (case key of
        None \<Rightarrow> Inl (KeyError ''nan'')
      | Some label \<Rightarrow>
          (case filter (\<lambda>(l, r). l = label) (rows df) of
             [] \<Rightarrow> Inl (KeyError (str_nat label))
           | found \<Rightarrow> Inr (map (\<lambda>(l, r). year r) found)))"

record key_indicators =
  country :: string
  average_happiness_score :: pyfloat
  highest_happiness_score :: pyfloat
  highest_year :: "int list"
  lowest_happiness_score :: pyfloat
  lowest_year :: "int list"
  average_social_support :: pyfloat
  average_healthy_life_expectancy :: pyfloat
  average_log_gdp_per_capita :: pyfloat

datatype insights = KeyIndicators key_indicators | NoDataAvailable string | SelectSingleCountry

definition insights_markdown :: "string \<Rightarrow> int frame \<Rightarrow> py_error + insights" where
  "insights_markdown name country_data =
     (case loc_year country_data (idxmax (items life_ladder country_data)) of
        Inl e \<Rightarrow> Inl e
      | Inr hi \<Rightarrow>
          (case loc_year country_data (idxmin (items life_ladder country_data)) of
             Inl e \<Rightarrow> Inl e
           | Inr lo \<Rightarrow>
               Inr (KeyIndicators
                 \<lparr>country = name,
                  average_happiness_score = series_mean (getitem life_ladder country_data),
                  highest_happiness_score = series_max (getitem life_ladder country_data),
                  highest_year = hi,
                  lowest_happiness_score = series_min (getitem life_ladder country_data),
                  lowest_year = lo,
                  average_social_support = series_mean (getitem social_support country_data),
                  average_healthy_life_expectancy =
                    series_mean (getitem healthy_life_expectancy country_data),
                  average_log_gdp_per_capita =
                    series_mean (getitem log_gdp_per_capita country_data)\<rparr>)))"

definition insights_tab :: "int frame \<Rightarrow> string list \<Rightarrow> py_error + insights" where
  "insights_tab data selected_countries =
     (if length selected_countries = 1 then
        (let country_data =
               boolean_index data (series_eq (getitem country_name data) (selected_countries ! 0))
         in if \<not> df_empty country_data
            then insights_markdown (selected_countries ! 0) country_data
            else Inr (NoDataAvailable (selected_countries ! 0)))
      else Inr SelectSingleCountry)"

section \<open>The Detailed Metrics and Comparisons tabs (lines 119 to 142)\<close>

text \<open>
  \<^verbatim>\<open>
  if len(selected_countries) > 0:
      st.dataframe(filtered_data)
  \<close>
\<close>

definition detailed_metrics_tab :: "int frame \<Rightarrow> string list \<Rightarrow> int frame option" where
  "detailed_metrics_tab filtered selected_countries =
     (if length selected_countries > 0 then Some filtered else None)"

text \<open>
  \<^verbatim>\<open>
  if len(selected_countries) > 1:
      filtered_data["Country (Year)"] =
          filtered_data["Country name"] + " (" + filtered_data["year"].astype(str) + ")"
  \<close>
  The assignment writes into the DataFrame that the variable \<^verbatim>\<open>filtered_data\<close> names:
  a column of that label is overwritten where it is, and otherwise the column is added
  after the last one. \<^verbatim>\<open>data\<close> is another object (indexing with a mask copies the
  rows), so the assignment does not reach it.
\<close>

fun assign :: "string \<Rightarrow> cell \<Rightarrow> (string \<times> cell) list \<Rightarrow> (string \<times> cell) list" where
  "assign k v [] = [(k, v)]"
| "assign k v ((k', v') # kvs) = (if k' = k then (k, v) # kvs else (k', v') # assign k v kvs)"

definition country_year :: "int row \<Rightarrow> string" where
  "country_year r = country_name r @ '' ('' @ str_int (year r) @ '')''"

definition setitem_country_year :: "int frame \<Rightarrow> int frame" where
  "setitem_country_year df =
     \<lparr>columns =
        (if ''Country (Year)'' \<in> set (columns df) then columns df
         else columns df @ [''Country (Year)'']),
      rows =
        map (\<lambda>(label, r).
               (label, r\<lparr>rest := assign ''Country (Year)'' (StrCell (country_year r)) (rest r)\<rparr>))
          (rows df)\<rparr>"

definition comparisons_tab :: "int frame \<Rightarrow> string list \<Rightarrow> int frame" where
  "comparisons_tab filtered selected_countries =
     (if length selected_countries > 1 then setitem_country_year filtered else filtered)"

section \<open>The download (lines 145 to 152)\<close>

text \<open>
  \<^verbatim>\<open>csv = filtered_data.to_csv(index=False).encode('utf-8')\<close>: a header line with the column
  labels, then one line for each row with its entries in the order of the columns, without the
  index labels. The text of an entry is not modelled, the entry itself stands for it.
\<close>

definition entry :: "int row \<Rightarrow> string \<Rightarrow> cell option" where
  "entry r name =
     (if name = ''Country name'' then Some (StrCell (country_name r))
      else if name = ''year'' then Some (IntCell (year r))
      else if name = ''Life Ladder'' then Some (FloatCell (life_ladder r))
      else if name = ''Log GDP per capita'' then Some (FloatCell (log_gdp_per_capita r))
      else if name = ''Social support'' then Some (FloatCell (social_support r))
      else if name = ''Healthy life expectancy at birth''
        then Some (FloatCell (healthy_life_expectancy r))
      else map_of (rest r) name)"

record csv =
  header :: "string list"
  records :: "cell option list list"

definition to_csv :: "int frame \<Rightarrow> csv" where
  "to_csv df =
     \<lparr>header = columns df,
      records = map (\<lambda>(label, r). map (entry r) (columns df)) (rows df)\<rparr>"

section \<open>One run of the script\<close>

text \<open>
  Streamlit runs the script from top to bottom on every interaction. The widgets of lines
  28 to 35 give \<^verbatim>\<open>selected_countries\<close> and \<^verbatim>\<open>year_range\<close>, which are inputs here together
  with the loaded table. The charts (Trends, Global Map, the bar chart of Comparisons) are
  not modelled. An exception stops the run: what was shown before stays, what comes after
  is not shown. The record holds what the run shows, and the two tables that the
  variables \<^verbatim>\<open>data\<close> and \<^verbatim>\<open>filtered_data\<close> name when the run ends.
\<close>

record dashboard =
  metrics :: key_statistics
  insights_shown :: "py_error + insights"
  detailed_metrics :: "int frame option"
  download :: "csv option"
  data_end :: "int frame"
  filtered_data_end :: "int frame"

definition script :: "int frame \<Rightarrow> string list \<Rightarrow> int \<times> int \<Rightarrow> dashboard" where
  "script data selected_countries year_range =
     (let filtered = filtered_data data selected_countries year_range;
          shown = key_statistics filtered
      in case insights_tab data selected_countries of
           Inl e \<Rightarrow>
             \<lparr>metrics = shown, insights_shown = Inl e, detailed_metrics = None,
              download = None, data_end = data, filtered_data_end = filtered\<rparr>
         | Inr text \<Rightarrow>
             (let filtered' = comparisons_tab filtered selected_countries
              in \<lparr>metrics = shown, insights_shown = Inr text,
                  detailed_metrics = detailed_metrics_tab filtered selected_countries,
                  download = Some (to_csv filtered'),
                  data_end = data, filtered_data_end = filtered'\<rparr>))"

section \<open>Notions used in the statements\<close>

text \<open>The values of a float column that are present, in order: the entries that are not NaN.\<close>

fun present :: "pyfloat list \<Rightarrow> real list" where
  "present [] = []"
| "present (NaN # xs) = present xs"
| "present (Val v # xs) = v # present xs"

text \<open>The six columns the script reads, and a row that has only the first three filled in.\<close>

definition whr_columns :: "string list" where
  "whr_columns =
     [''Country name'', ''year'', ''Life Ladder'', ''Log GDP per capita'', ''Social support'',
      ''Healthy life expectancy at birth'']"

definition observation :: "string \<Rightarrow> 'y \<Rightarrow> pyfloat \<Rightarrow> 'y row" where
  "observation c y ladder =
     \<lparr>country_name = c, year = y, life_ladder = ladder, log_gdp_per_capita = NaN,
      social_support = NaN, healthy_life_expectancy = NaN, rest = []\<rparr>"

text \<open>Mongolia 2015 (4.5), Mongolia 2016 (5.0), Finland 2015 (7.5).\<close>

definition scenario :: "int frame" where
  "scenario =
     \<lparr>columns = whr_columns,
      rows = [(0, observation ''Mongolia'' 2015 (Val 4.5)),
              (1, observation ''Mongolia'' 2016 (Val 5.0)),
              (2, observation ''Finland'' 2015 (Val 7.5))]\<rparr>"

text \<open>Three years of one country with Life Ladder 5.0, missing, 7.0.\<close>

definition gaps :: "int frame" where
  "gaps =
     \<lparr>columns = whr_columns,
      rows = [(0, observation ''Mongolia'' 2015 (Val 5.0)),
              (1, observation ''Mongolia'' 2016 NaN),
              (2, observation ''Mongolia'' 2017 (Val 7.0))]\<rparr>"

text \<open>
  The exception that one entry of the year column makes the coercion raise, if any: NaN,
  an infinity and a text that is no integer give \<^verbatim>\<open>ValueError\<close>, the text of an integer
  beyond 64 bits gives \<^verbatim>\<open>OverflowError\<close>.
\<close>

fun refusal :: "(string \<Rightarrow> int option) \<Rightarrow> year_entry \<Rightarrow> py_error option" where
  "refusal py_int (Float64 NaN) = Some ValueError"
| "refusal py_int Infinite = Some ValueError"
| "refusal py_int (Text s) =
     (case py_int s of
        None \<Rightarrow> Some ValueError
      | Some i \<Rightarrow> if i < - (2 ^ 63) \<or> 2 ^ 63 \<le> i then Some OverflowError else None)"
| "refusal py_int y = None"

text \<open>
  \<open>coerced py_int c_cast y i\<close>: the integer \<open>i\<close> is the entry \<open>y\<close> made a 64-bit
  integer. For a float that fits, \<open>i\<close> is the integer between 0 and the float that is
  less than 1 away from it.
\<close>

definition coerced ::
  "(string \<Rightarrow> int option) \<Rightarrow> (real \<Rightarrow> 64 word) \<Rightarrow> year_entry \<Rightarrow> int \<Rightarrow> bool" where
  "coerced py_int c_cast y i =
     (case y of
        Int64 w \<Rightarrow> i = sint w
      | UInt64 w \<Rightarrow> i = (if uint w < 2 ^ 63 then uint w else uint w - 2 ^ 64)
      | Float64 f \<Rightarrow>
          (case f of
             NaN \<Rightarrow> False
           | Val x \<Rightarrow>
               if - (2 ^ 63) - 1 < x \<and> x < 2 ^ 63
               then \<bar>of_int i\<bar> \<le> \<bar>x\<bar> \<and> \<bar>x - of_int i\<bar> < 1
               else i = sint (c_cast x))
      | Infinite \<Rightarrow> False
      | Bool b \<Rightarrow> i = (if b then 1 else 0)
      | Text s \<Rightarrow> py_int s = Some i)"

text \<open>
  Tables as the CSV parser leaves them, each with a seventh column: years that are floats
  (with a fraction, negative, and beyond 64 bits), a year of \<open>2^63\<close>, years that are texts
  (one of them no number, one the integer \<open>2^64\<close>), and a table without a year column.
  \<open>int_of_text\<close> is \<^verbatim>\<open>int\<close> on the texts that occur, and \<open>integer_indefinite\<close> is the
  conversion of a float that does not fit on x86-64, which leaves \<open>-2^63\<close>.
\<close>

definition int_of_text :: "string \<Rightarrow> int option" where
  "int_of_text s =
     (if s = ''2015'' then Some 2015
      else if s = ''18446744073709551616'' then Some 18446744073709551616
      else None)"

definition integer_indefinite :: "real \<Rightarrow> 64 word" where
  "integer_indefinite x = 2 ^ 63"

definition survey :: "'y \<Rightarrow> 'y row" where
  "survey y =
     \<lparr>country_name = ''Mongolia'', year = y, life_ladder = Val 4.5,
      log_gdp_per_capita = Val 9.4, social_support = Val 0.9,
      healthy_life_expectancy = NaN, rest = [(''Generosity'', FloatCell (Val 0.1))]\<rparr>"

definition float_years :: "year_entry frame" where
  "float_years =
     \<lparr>columns = whr_columns @ [''Generosity''],
      rows = [(0, survey (Float64 (Val 2015.7))),
              (1, survey (Float64 (Val (- 1.5)))),
              (2, survey (Float64 (Val 10000000000000000000)))]\<rparr>"

definition unsigned_years :: "year_entry frame" where
  "unsigned_years =
     \<lparr>columns = whr_columns @ [''Generosity''],
      rows = [(0, survey (UInt64 9223372036854775808))]\<rparr>"

definition text_years :: "year_entry frame" where
  "text_years =
     \<lparr>columns = whr_columns @ [''Generosity''],
      rows = [(0, survey (Text ''2015'')), (1, survey (Text ''unknown''))]\<rparr>"

definition huge_years :: "year_entry frame" where
  "huge_years =
     \<lparr>columns = whr_columns @ [''Generosity''],
      rows = [(0, survey (Text ''2015'')), (1, survey (Text ''18446744073709551616''))]\<rparr>"

definition no_year :: "year_entry frame" where
  "no_year =
     \<lparr>columns = [''Country name'', ''Life Ladder''],
      rows = [(0, survey (Float64 NaN))]\<rparr>"

section \<open>The filter keeps the rows that match\<close>

lemma mask_select:
  "map fst (filter snd (zip xs (map p xs))) = filter p xs"
  by (induction xs) auto

lemma series_and_map:
  "series_and (map p xs) (map q xs) = map (\<lambda>x. p x \<and> q x) xs"
  by (induction xs) (simp_all add: series_and_def)

lemma filtered_data_rows:
  "rows (filtered_data data cs yr) =
     filter (\<lambda>(label, r). country_name r \<in> set cs \<and> fst yr \<le> year r \<and> year r \<le> snd yr)
       (rows data)"
proof -
  let ?p = "\<lambda>(label, r). country_name r \<in> set cs \<and> fst yr \<le> year r \<and> year r \<le> snd yr"
  have "series_and
          (series_and (isin (getitem country_name data) cs)
                      (series_ge (getitem year data) (fst yr)))
          (series_le (getitem year data) (snd yr)) = map ?p (rows data)"
    by (simp add: isin_def series_ge_def series_le_def getitem_def series_and_map split_def)
  then show ?thesis
    by (simp add: filtered_data_def boolean_index_def mask_select)
qed

lemma filtered_data_columns: "columns (filtered_data data cs yr) = columns data"
  by (simp add: filtered_data_def boolean_index_def)

text \<open>
  C1. The three masks and the indexing together keep exactly the rows of \<^verbatim>\<open>data\<close> whose
  country is one of the selected ones and whose year lies in the closed range: the rows of
  the filtered table are those rows, in the order of \<^verbatim>\<open>data\<close>, and a row with its label is
  in the filtered table if and only if it is in \<^verbatim>\<open>data\<close>, its country is selected and
  \<open>year_min \<le> year \<le> year_max\<close>.
\<close>

theorem filter_includes_iff:
  "rows (filtered_data data countries (year_min, year_max)) =
     filter (\<lambda>(label, r). country_name r \<in> set countries \<and> year_min \<le> year r \<and> year r \<le> year_max)
       (rows data)
   \<and> ((label, r) \<in> set (rows (filtered_data data countries (year_min, year_max))) \<longleftrightarrow>
        (label, r) \<in> set (rows data) \<and> country_name r \<in> set countries
          \<and> year_min \<le> year r \<and> year r \<le> year_max)"
  by (auto simp add: filtered_data_rows)

text \<open>
  C6. The filter is a total function on tables, lists of names and pairs of bounds: no
  criteria make it raise. With no country selected the result has no row; with
  \<open>year_max < year_min\<close> it has no row; with names none of which occurs in the table it has
  no row. In each case the result is a table with the columns of \<^verbatim>\<open>data\<close>.
\<close>

theorem filter_degenerate_criteria:
  "rows (filtered_data data [] yr) = []
   \<and> (year_max < year_min \<longrightarrow> rows (filtered_data data countries (year_min, year_max)) = [])
   \<and> (set countries \<inter> set (getitem country_name data) = {} \<longrightarrow>
        rows (filtered_data data countries yr) = [])
   \<and> columns (filtered_data data countries yr) = columns data"
proof -
  have "rows (filtered_data data [] yr) = []"
    by (simp add: filtered_data_rows)
  moreover have "rows (filtered_data data countries (year_min, year_max)) = []"
    if "year_max < year_min"
    using that by (auto simp add: filtered_data_rows filter_empty_conv)
  moreover have "rows (filtered_data data countries yr) = []"
    if "set countries \<inter> set (getitem country_name data) = {}"
    using that by (force simp add: filtered_data_rows filter_empty_conv getitem_def)
  ultimately show ?thesis
    by (simp add: filtered_data_columns)
qed

theorem filter_degenerate_criteria_witness:
  "(2010::int) < 2023
   \<and> set [''Atlantis''] \<inter> set (getitem country_name scenario) = {}
   \<and> rows (filtered_data scenario [] (2010, 2023)) = []
   \<and> rows (filtered_data scenario [''Mongolia''] (2023, 2010)) = []
   \<and> rows (filtered_data scenario [''Atlantis''] (2000, 2023)) = []"
proof -
  have a: "set [''Atlantis''] \<inter> set (getitem country_name scenario) = {}"
    by (simp add: getitem_def scenario_def observation_def)
  show ?thesis
    using a filter_degenerate_criteria [of scenario "(2010, 2023)" 2010 2023 "[''Mongolia'']"]
      filter_degenerate_criteria [of scenario "(2000, 2023)" 2010 2023 "[''Atlantis'']"]
    by simp
qed

text \<open>
  C7. The rows of the filtered table are a subsequence of the rows of \<^verbatim>\<open>data\<close>: each of
  them is a row of \<^verbatim>\<open>data\<close> with the label it has there, and they stand in the order they
  have in \<^verbatim>\<open>data\<close>. The columns are those of \<^verbatim>\<open>data\<close>.
\<close>

theorem filter_subsequence:
  "subseq (rows (filtered_data data countries yr)) (rows data)
   \<and> set (rows (filtered_data data countries yr)) \<subseteq> set (rows data)
   \<and> columns (filtered_data data countries yr) = columns data"
  by (auto simp add: filtered_data_rows filtered_data_columns)

text \<open>
  C8. A wider range of years keeps every row that a narrower one keeps: when
  \<open>y1_min \<le> y0_min\<close> and \<open>y0_max \<le> y1_max\<close>, every row of the table filtered with
  \<open>(y0_min, y0_max)\<close> is a row of the table filtered with \<open>(y1_min, y1_max)\<close>, for the same
  countries, and in the same order.
\<close>

theorem filter_monotone_in_year_range:
  assumes "y1_min \<le> y0_min" and "y0_max \<le> y1_max"
  shows "set (rows (filtered_data data countries (y0_min, y0_max)))
           \<subseteq> set (rows (filtered_data data countries (y1_min, y1_max)))
         \<and> subseq (rows (filtered_data data countries (y0_min, y0_max)))
             (rows (filtered_data data countries (y1_min, y1_max)))"
proof -
  let ?narrow = "\<lambda>(label, r). country_name r \<in> set countries \<and> y0_min \<le> year r \<and> year r \<le> y0_max"
  let ?wide = "\<lambda>(label, r::int row). country_name r \<in> set countries \<and> y1_min \<le> year r \<and> year r \<le> y1_max"
  have included: "set (rows (filtered_data data countries (y0_min, y0_max)))
           \<subseteq> set (rows (filtered_data data countries (y1_min, y1_max)))"
    using assms by (auto simp add: filtered_data_rows)
  have "filter ?narrow (rows data) = filter ?narrow (filter ?wide (rows data))"
    using assms by (auto intro!: filter_cong)
  then have "subseq (rows (filtered_data data countries (y0_min, y0_max)))
           (rows (filtered_data data countries (y1_min, y1_max)))"
    by (simp add: filtered_data_rows del: filter_filter)
  with included show ?thesis by simp
qed

theorem filter_monotone_in_year_range_witness:
  "(2010::int) \<le> 2015 \<and> (2015::int) \<le> 2023
   \<and> rows (filtered_data scenario [''Mongolia''] (2015, 2015))
        = [(0, observation ''Mongolia'' 2015 (Val 4.5))]
   \<and> set (rows (filtered_data scenario [''Mongolia''] (2015, 2015)))
        \<subseteq> set (rows (filtered_data scenario [''Mongolia''] (2010, 2023)))"
proof -
  have "rows (filtered_data scenario [''Mongolia''] (2015, 2015))
        = [(0, observation ''Mongolia'' 2015 (Val 4.5))]"
    by (simp add: filtered_data_rows scenario_def observation_def)
  then show ?thesis
    using filter_monotone_in_year_range [of 2010 2015 2015 2023 scenario "[''Mongolia'']"]
    by simp
qed

section \<open>The key metrics skip missing values\<close>

lemma count_present: "length (filter notna s) = length (present s)"
  by (induction s rule: present.induct) (simp_all add: notna_def)

lemma sum_present: "sum_list (map (fillna 0) s) = sum_list (present s)"
  by (induction s rule: present.induct) simp_all

lemma series_mean_present:
  "series_mean s =
     (if present s = [] then NaN else Val (sum_list (present s) / real (length (present s))))"
  by (simp add: series_mean_def count_present sum_present)

lemma foldl_nan_min_Val:
  "foldl nan_min (Val a) s = Val (Min (insert a (set (present s))))"
proof (induction s arbitrary: a rule: present.induct)
  case 1
  then show ?case by simp
next
  case (2 xs)
  then show ?case by simp
next
  case (3 v xs)
  have "Min (insert (min a v) (set (present xs))) = Min (insert a (insert v (set (present xs))))"
    by (cases "present xs = []") (simp_all add: min.assoc)
  with 3 show ?case by simp
qed

lemma foldl_nan_max_Val:
  "foldl nan_max (Val a) s = Val (Max (insert a (set (present s))))"
proof (induction s arbitrary: a rule: present.induct)
  case 1
  then show ?case by simp
next
  case (2 xs)
  then show ?case by simp
next
  case (3 v xs)
  have "Max (insert (max a v) (set (present xs))) = Max (insert a (insert v (set (present xs))))"
    by (cases "present xs = []") (simp_all add: max.assoc)
  with 3 show ?case by simp
qed

lemma series_min_present:
  "series_min s = (if present s = [] then NaN else Val (Min (set (present s))))"
  unfolding series_min_def
  by (induction s rule: present.induct) (simp_all add: foldl_nan_min_Val)

lemma series_max_present:
  "series_max s = (if present s = [] then NaN else Val (Max (set (present s))))"
  unfolding series_max_def
  by (induction s rule: present.induct) (simp_all add: foldl_nan_max_Val)

lemma present_Nil_rows: "present (getitem life_ladder view) \<noteq> [] \<Longrightarrow> rows view \<noteq> []"
  by (auto simp add: getitem_def)

text \<open>
  C3. When the Life Ladder column of the filtered table has a value that is not missing,
  the mean, the minimum and the maximum are those of the values that are present: the
  missing entries count neither in the sum nor in the number of values, and the metrics show
  these three numbers. For the values 5.0, missing, 7.0 the mean is 6.0, the minimum 5.0 and
  the maximum 7.0.
\<close>

theorem aggregate_skips_missing:
  assumes "present (getitem life_ladder view) \<noteq> []"
  shows "avg_score view =
           Val (sum_list (present (getitem life_ladder view))
                  / real (length (present (getitem life_ladder view))))
         \<and> min_score view = Val (Min (set (present (getitem life_ladder view))))
         \<and> max_score view = Val (Max (set (present (getitem life_ladder view))))
         \<and> (columns view \<noteq> [] \<longrightarrow>
              key_statistics view =
                \<lparr>average_happiness = Formatted (avg_score view),
                 lowest_score = Formatted (min_score view),
                 highest_score = Formatted (max_score view)\<rparr>)"
  using assms present_Nil_rows [OF assms]
  by (simp add: avg_score_def min_score_def max_score_def series_mean_present
      series_min_present series_max_present key_statistics_def df_empty_def)

theorem aggregate_skips_missing_witness:
  "getitem life_ladder (filtered_data gaps [''Mongolia''] (2010, 2023)) = [Val 5, NaN, Val 7]
   \<and> avg_score (filtered_data gaps [''Mongolia''] (2010, 2023)) = Val 6
   \<and> min_score (filtered_data gaps [''Mongolia''] (2010, 2023)) = Val 5
   \<and> max_score (filtered_data gaps [''Mongolia''] (2010, 2023)) = Val 7
   \<and> key_statistics (filtered_data gaps [''Mongolia''] (2010, 2023)) =
        \<lparr>average_happiness = Formatted (Val 6), lowest_score = Formatted (Val 5),
         highest_score = Formatted (Val 7)\<rparr>"
proof -
  have v: "getitem life_ladder (filtered_data gaps [''Mongolia''] (2010, 2023))
             = [Val 5, NaN, Val 7]"
    by (simp add: getitem_def filtered_data_rows gaps_def observation_def)
  have c: "columns (filtered_data gaps [''Mongolia''] (2010, 2023)) \<noteq> []"
    by (simp add: filtered_data_columns gaps_def whr_columns_def)
  show ?thesis
    using aggregate_skips_missing [of "filtered_data gaps [''Mongolia''] (2010, 2023)"] v c
    by simp
qed

text \<open>
  C2, as stated, fails: the one row of Mongolia in 2016 has no Life Ladder value, the
  filtered table is not empty, and the three metrics show NaN and not N/A.
\<close>

theorem aggregate_all_missing_counterexample:
  "\<not> df_empty (filtered_data gaps [''Mongolia''] (2016, 2016))
   \<and> getitem life_ladder (filtered_data gaps [''Mongolia''] (2016, 2016)) = [NaN]
   \<and> key_statistics (filtered_data gaps [''Mongolia''] (2016, 2016)) =
        \<lparr>average_happiness = Formatted NaN, lowest_score = Formatted NaN,
         highest_score = Formatted NaN\<rparr>
   \<and> Formatted NaN \<noteq> NA"
  by (simp add: key_statistics_def df_empty_def avg_score_def min_score_def max_score_def
      series_mean_def series_min_def series_max_def notna_def
      getitem_def filtered_data_rows filtered_data_columns gaps_def observation_def
      whr_columns_def)

text \<open>
  C2, amended. When the filtered table is empty, the three metrics are the text N/A. When
  it is not empty and every Life Ladder value is missing, the three metrics are NaN. No
  exception is raised in either case: the metrics are a total function of the table.
\<close>

theorem key_statistics_unavailable:
  "(df_empty view \<longrightarrow>
      key_statistics view = \<lparr>average_happiness = NA, lowest_score = NA, highest_score = NA\<rparr>)
   \<and> (\<not> df_empty view \<and> present (getitem life_ladder view) = [] \<longrightarrow>
      key_statistics view =
        \<lparr>average_happiness = Formatted NaN, lowest_score = Formatted NaN,
         highest_score = Formatted NaN\<rparr>)"
  by (simp add: key_statistics_def avg_score_def min_score_def max_score_def
      series_mean_present series_min_present series_max_present)

theorem key_statistics_unavailable_witness:
  "df_empty (filtered_data scenario [''Atlantis''] (2000, 2023))
   \<and> key_statistics (filtered_data scenario [''Atlantis''] (2000, 2023)) =
        \<lparr>average_happiness = NA, lowest_score = NA, highest_score = NA\<rparr>
   \<and> \<not> df_empty (filtered_data gaps [''Mongolia''] (2016, 2016))
   \<and> present (getitem life_ladder (filtered_data gaps [''Mongolia''] (2016, 2016))) = []
   \<and> key_statistics (filtered_data gaps [''Mongolia''] (2016, 2016)) =
        \<lparr>average_happiness = Formatted NaN, lowest_score = Formatted NaN,
         highest_score = Formatted NaN\<rparr>"
proof -
  have e: "df_empty (filtered_data scenario [''Atlantis''] (2000, 2023))"
    by (simp add: df_empty_def filtered_data_rows scenario_def observation_def)
  have n: "\<not> df_empty (filtered_data gaps [''Mongolia''] (2016, 2016))"
    by (simp add: df_empty_def filtered_data_rows filtered_data_columns gaps_def
        observation_def whr_columns_def)
  have p: "present (getitem life_ladder (filtered_data gaps [''Mongolia''] (2016, 2016))) = []"
    by (simp add: getitem_def filtered_data_rows gaps_def observation_def)
  show ?thesis
    using e n p key_statistics_unavailable [of "filtered_data scenario [''Atlantis''] (2000, 2023)"]
      key_statistics_unavailable [of "filtered_data gaps [''Mongolia''] (2016, 2016)"]
    by simp
qed

section \<open>The loader passes the library's exceptions on\<close>

lemma exception_name_library: "exception_name e \<noteq> ''MalformedDataError''"
  by (cases e) simp_all

lemma astype_int_Inl: "astype_int py_int c_cast y = Inl e \<longleftrightarrow> refusal py_int y = Some e"
  by (cases "(py_int, y)" rule: refusal.cases) (auto simp add: Let_def split: option.splits)

lemma sint_64_range: "- (2 ^ 63) \<le> sint (w :: 64 word) \<and> sint w < 2 ^ 63"
  using sint_ge [of w] sint_lt [of w] by simp

lemma sint_64_wrap: "sint (w :: 64 word) = (if uint w < 2 ^ 63 then uint w else uint w - 2 ^ 64)"
proof -
  have u: "0 \<le> uint w" "uint w < 2 ^ 64"
    using uint_lt2p [of w] by simp_all
  have s: "sint w = (uint w + 2 ^ 63) mod 2 ^ 64 - 2 ^ 63"
    by (simp add: sint_uint signed_take_bit_eq_take_bit_shift take_bit_eq_mod)
  show ?thesis
  proof (cases "uint w < 2 ^ 63")
    case True
    with u have "(uint w + 2 ^ 63) mod 2 ^ 64 = uint w + 2 ^ 63"
      by (simp add: mod_pos_pos_trivial)
    with True s show ?thesis by simp
  next
    case False
    with u have "(uint w + 2 ^ 63) mod 2 ^ 64 = uint w + 2 ^ 63 - 2 ^ 64"
      by (simp add: mod_pos_geq mod_pos_pos_trivial)
    with False s show ?thesis by simp
  qed
qed

lemma trunc_range:
  "(- (2 ^ 63) \<le> (if 0 \<le> x then \<lfloor>x\<rfloor> else \<lceil>x\<rceil>) \<and> (if 0 \<le> x then \<lfloor>x\<rfloor> else \<lceil>x\<rceil>) < 2 ^ 63)
     \<longleftrightarrow> (- (2 ^ 63) - 1 < x \<and> x < 2 ^ 63)" for x :: real
proof (cases "0 \<le> x")
  case True
  then have "(0::int) \<le> \<lfloor>x\<rfloor>" by simp
  moreover have "- (2 ^ 63) \<le> (0::int)" by simp
  ultimately have "- (2 ^ 63) \<le> \<lfloor>x\<rfloor>" by (rule order_trans [rotated])
  moreover have "\<lfloor>x\<rfloor> < 2 ^ 63 \<longleftrightarrow> x < 2 ^ 63"
    using floor_less_iff [of x "2 ^ 63"] by simp
  ultimately show ?thesis using True by simp
next
  case False
  then have "\<lceil>x\<rceil> \<le> 0" by (simp add: ceiling_le_iff)
  moreover have "(0::int) < 2 ^ 63" by simp
  ultimately have "\<lceil>x\<rceil> < 2 ^ 63" by (rule le_less_trans)
  moreover have "- (2 ^ 63) \<le> \<lceil>x\<rceil> \<longleftrightarrow> - (2 ^ 63) - 1 < x"
    using le_ceiling_iff [of "- (2 ^ 63)" x] by simp
  ultimately show ?thesis using False by simp
qed

lemma trunc_part:
  "\<bar>of_int (if 0 \<le> x then \<lfloor>x\<rfloor> else \<lceil>x\<rceil>)\<bar> \<le> \<bar>x\<bar>
     \<and> \<bar>x - of_int (if 0 \<le> x then \<lfloor>x\<rfloor> else \<lceil>x\<rceil>)\<bar> < 1" for x :: real
proof (cases "0 \<le> x")
  case True
  then have "(0::real) \<le> of_int \<lfloor>x\<rfloor>" by simp
  with True floor_correct [of x] show ?thesis by (simp; linarith)
next
  case False
  then have "of_int \<lceil>x\<rceil> \<le> (0::real)" by (simp add: ceiling_le_iff)
  with False ceiling_correct [of x] show ?thesis by (simp; linarith)
qed

lemma astype_int_Inr:
  assumes "astype_int py_int c_cast y = Inr i"
  shows "coerced py_int c_cast y i \<and> - (2 ^ 63) \<le> i \<and> i < 2 ^ 63"
proof (cases y)
  case (Int64 w)
  with assms sint_64_range [of w] show ?thesis by (simp add: coerced_def)
next
  case (UInt64 w)
  with assms sint_64_range [of w] sint_64_wrap [of w] show ?thesis by (simp add: coerced_def)
next
  case (Float64 f)
  show ?thesis
  proof (cases f)
    case NaN
    with assms Float64 show ?thesis by simp
  next
    case (Val x)
    let ?t = "if 0 \<le> x then \<lfloor>x\<rfloor> else \<lceil>x\<rceil>"
    show ?thesis
    proof (cases "- (2 ^ 63) \<le> ?t \<and> ?t < 2 ^ 63")
      case True
      with assms Float64 Val have i: "i = ?t" by (simp add: Let_def)
      from True have "- (2 ^ 63) - 1 < x \<and> x < 2 ^ 63"
        using trunc_range [of x] by blast
      with True trunc_part [of x] show ?thesis
        unfolding i by (simp add: coerced_def Float64 Val)
    next
      case False
      with assms Float64 Val have i: "i = sint (c_cast x)"
        by (auto simp add: Let_def split: if_splits)
      from False have "\<not> (- (2 ^ 63) - 1 < x \<and> x < 2 ^ 63)"
        using trunc_range [of x] by blast
      with sint_64_range [of "c_cast x"] show ?thesis
        unfolding i by (auto simp add: coerced_def Float64 Val)
    qed
  qed
next
  case Infinite
  with assms show ?thesis by simp
next
  case (Bool b)
  with assms show ?thesis by (cases b) (auto simp add: coerced_def)
next
  case (Text s)
  with assms show ?thesis by (auto simp add: coerced_def split: option.splits if_splits)
qed

lemma astype_int_rows_Inl:
  "astype_int_rows py_int c_cast rs = Inl e \<longleftrightarrow>
     (\<exists>y. find (\<lambda>y. refusal py_int y \<noteq> None) (map (\<lambda>(label, r). year r) rs) = Some y
          \<and> refusal py_int y = Some e)"
proof (induction rs)
  case Nil
  then show ?case by simp
next
  case (Cons a rs)
  obtain label r where a: "a = (label, r)" by (cases a)
  show ?case
  proof (cases "astype_int py_int c_cast (year r)")
    case (Inl e')
    then have "refusal py_int (year r) = Some e'" by (simp add: astype_int_Inl)
    with Inl show ?thesis by (auto simp add: a)
  next
    case (Inr i)
    have "refusal py_int (year r) = None"
    proof (cases "refusal py_int (year r)")
      case None
      then show ?thesis .
    next
      case (Some e')
      then have "astype_int py_int c_cast (year r) = Inl e'" by (simp add: astype_int_Inl)
      with Inr show ?thesis by simp
    qed
    with Inr Cons show ?thesis
      by (auto simp add: a split: sum.splits)
  qed
qed

lemma astype_int_rows_Inr:
  "astype_int_rows py_int c_cast rs = Inr rs' \<Longrightarrow>
     list_all2 (\<lambda>(l, r) (l', r').
         l' = l \<and> country_name r' = country_name r \<and> life_ladder r' = life_ladder r
         \<and> log_gdp_per_capita r' = log_gdp_per_capita r
         \<and> social_support r' = social_support r
         \<and> healthy_life_expectancy r' = healthy_life_expectancy r \<and> rest r' = rest r
         \<and> coerced py_int c_cast (year r) (year r')
         \<and> - (2 ^ 63) \<le> year r' \<and> year r' < 2 ^ 63) rs rs'"
proof (induction rs arbitrary: rs')
  case Nil
  then show ?case by simp
next
  case (Cons a rs)
  obtain label r where a: "a = (label, r)" by (cases a)
  from Cons.prems obtain i tl where
    i: "astype_int py_int c_cast (year r) = Inr i" and
    tl: "astype_int_rows py_int c_cast rs = Inr tl" and
    rs': "rs' = (label, with_year r i) # tl"
    by (auto simp add: a split: sum.splits)
  from astype_int_Inr [OF i] Cons.IH [OF tl] show ?case
    by (simp add: a rs' with_year_def)
qed

text \<open>
  C4, amended. \<^verbatim>\<open>load_data\<close> raises exactly in these cases, and with these exceptions:
  \<^verbatim>\<open>read_csv\<close> raised (the file is missing or cannot be read or parsed), and it is that
  exception; the table has no \<^verbatim>\<open>year\<close> column, and it is \<^verbatim>\<open>KeyError\<close>; an entry of the
  year column is refused, and it is the exception of the first such entry:
  \<^verbatim>\<open>ValueError\<close> for a missing or infinite entry and for a text that is no integer,
  \<^verbatim>\<open>OverflowError\<close> for the text of an integer beyond 64 bits. The exception is never a
  \<^verbatim>\<open>MalformedDataError\<close>: the script defines no exception and catches none. Otherwise the
  result is the table that was read: the same columns, and row by row the same label, the
  same entries in every column but \<^verbatim>\<open>year\<close>, and the year made a 64-bit integer (a float
  loses its fraction, a boolean is 1 or 0, an unsigned integer from \<open>2^63\<close> on wraps around).
\<close>

theorem load_data_outcome:
  "(load_data py_int c_cast read_csv = Inl e \<longleftrightarrow>
      read_csv = Inl e
      \<or> (\<exists>raw. read_csv = Inr raw \<and> ''year'' \<notin> set (columns raw) \<and> e = KeyError ''year'')
      \<or> (\<exists>raw y. read_csv = Inr raw \<and> ''year'' \<in> set (columns raw)
            \<and> find (\<lambda>y. refusal py_int y \<noteq> None) (getitem year raw) = Some y
            \<and> refusal py_int y = Some e))
   \<and> (load_data py_int c_cast read_csv = Inr data \<longrightarrow>
        (\<exists>raw. read_csv = Inr raw \<and> columns data = columns raw
           \<and> list_all2 (\<lambda>(l, r) (l', r').
                 l' = l \<and> country_name r' = country_name r \<and> life_ladder r' = life_ladder r
                 \<and> log_gdp_per_capita r' = log_gdp_per_capita r
                 \<and> social_support r' = social_support r
                 \<and> healthy_life_expectancy r' = healthy_life_expectancy r \<and> rest r' = rest r
                 \<and> coerced py_int c_cast (year r) (year r')
                 \<and> - (2 ^ 63) \<le> year r' \<and> year r' < 2 ^ 63) (rows raw) (rows data)))
   \<and> (load_data py_int c_cast read_csv = Inl e \<longrightarrow> exception_name e \<noteq> ''MalformedDataError'')"
proof (cases read_csv)
  case (Inl e')
  then show ?thesis
    by (auto simp add: load_data_def exception_name_library)
next
  case (Inr raw)
  show ?thesis
  proof (cases "''year'' \<in> set (columns raw)")
    case False
    then show ?thesis
      by (auto simp add: load_data_def Inr exception_name_library)
  next
    case True
    have "load_data py_int c_cast read_csv = Inl e \<longleftrightarrow>
          (\<exists>y. find (\<lambda>y. refusal py_int y \<noteq> None) (getitem year raw) = Some y
              \<and> refusal py_int y = Some e)"
      using astype_int_rows_Inl [of py_int c_cast "rows raw" e] True
      by (auto simp add: load_data_def Inr getitem_def split: sum.splits)
    moreover have "columns data = columns raw
           \<and> list_all2 (\<lambda>(l, r) (l', r').
                 l' = l \<and> country_name r' = country_name r \<and> life_ladder r' = life_ladder r
                 \<and> log_gdp_per_capita r' = log_gdp_per_capita r
                 \<and> social_support r' = social_support r
                 \<and> healthy_life_expectancy r' = healthy_life_expectancy r \<and> rest r' = rest r
                 \<and> coerced py_int c_cast (year r) (year r')
                 \<and> - (2 ^ 63) \<le> year r' \<and> year r' < 2 ^ 63) (rows raw) (rows data)"
      if "load_data py_int c_cast read_csv = Inr data"
      using that True astype_int_rows_Inr [of py_int c_cast "rows raw"]
      by (auto simp add: load_data_def Inr split: sum.splits)
    ultimately show ?thesis
      using True by (simp add: Inr exception_name_library)
  qed
qed


theorem load_data_outcome_witness:
  "load_data int_of_text integer_indefinite (Inl FileNotFoundError) = Inl FileNotFoundError
   \<and> load_data int_of_text integer_indefinite (Inr no_year) = Inl (KeyError ''year'')
   \<and> load_data int_of_text integer_indefinite (Inr text_years) = Inl ValueError
   \<and> load_data int_of_text integer_indefinite (Inr huge_years) = Inl OverflowError
   \<and> load_data int_of_text integer_indefinite (Inr float_years) =
       Inr \<lparr>columns = whr_columns @ [''Generosity''],
            rows = [(0, survey 2015), (1, survey (- 1)), (2, survey (- 9223372036854775808))]\<rparr>
   \<and> coerced int_of_text integer_indefinite (Float64 (Val 2015.7)) 2015
   \<and> coerced int_of_text integer_indefinite (Float64 (Val (- 1.5))) (- 1)
   \<and> load_data int_of_text integer_indefinite (Inr unsigned_years) =
       Inr \<lparr>columns = whr_columns @ [''Generosity''],
            rows = [(0, survey (- 9223372036854775808))]\<rparr>
   \<and> exception_name OverflowError \<noteq> ''MalformedDataError''"
proof -
  have missing: "''year'' \<notin> set (columns no_year)"
    by (simp add: no_year_def)
  have bad: "''year'' \<in> set (columns text_years)"
    "find (\<lambda>y. refusal int_of_text y \<noteq> None) (getitem year text_years) = Some (Text ''unknown'')"
    "refusal int_of_text (Text ''unknown'') = Some ValueError"
    by (simp_all add: text_years_def whr_columns_def getitem_def survey_def int_of_text_def)
  have huge: "''year'' \<in> set (columns huge_years)"
    "find (\<lambda>y. refusal int_of_text y \<noteq> None) (getitem year huge_years)
       = Some (Text ''18446744073709551616'')"
    "refusal int_of_text (Text ''18446744073709551616'') = Some OverflowError"
    by (simp_all add: huge_years_def whr_columns_def getitem_def survey_def int_of_text_def)
  have floats: "load_data int_of_text integer_indefinite (Inr float_years) =
       Inr \<lparr>columns = whr_columns @ [''Generosity''],
            rows = [(0, survey 2015), (1, survey (- 1)), (2, survey (- 9223372036854775808))]\<rparr>"
    by (simp add: load_data_def float_years_def whr_columns_def survey_def with_year_def
        integer_indefinite_def)
  have unsigned: "load_data int_of_text integer_indefinite (Inr unsigned_years) =
       Inr \<lparr>columns = whr_columns @ [''Generosity''],
            rows = [(0, survey (- 9223372036854775808))]\<rparr>"
    by (simp add: load_data_def unsigned_years_def whr_columns_def survey_def with_year_def)
  have a: "load_data int_of_text integer_indefinite (Inl FileNotFoundError) = Inl FileNotFoundError"
    using load_data_outcome [of int_of_text integer_indefinite "Inl FileNotFoundError"
        FileNotFoundError]
    by simp
  have b: "load_data int_of_text integer_indefinite (Inr no_year) = Inl (KeyError ''year'')"
    using missing load_data_outcome [of int_of_text integer_indefinite "Inr no_year"
        "KeyError ''year''"]
    by simp
  have c: "load_data int_of_text integer_indefinite (Inr text_years) = Inl ValueError"
    using bad load_data_outcome [of int_of_text integer_indefinite "Inr text_years" ValueError]
    by simp
  have d: "load_data int_of_text integer_indefinite (Inr huge_years) = Inl OverflowError"
    using huge load_data_outcome [of int_of_text integer_indefinite "Inr huge_years"
        OverflowError]
    by simp
  have e: "coerced int_of_text integer_indefinite (Float64 (Val 2015.7)) 2015
           \<and> coerced int_of_text integer_indefinite (Float64 (Val (- 1.5))) (- 1)"
    using floats load_data_outcome [of int_of_text integer_indefinite "Inr float_years"
        OverflowError "\<lparr>columns = whr_columns @ [''Generosity''],
            rows = [(0, survey 2015), (1, survey (- 1)), (2, survey (- 9223372036854775808))]\<rparr>"]
    by (simp add: float_years_def survey_def)
  from a b c d e floats unsigned show ?thesis
    by simp
qed

text \<open>
  C4, as stated, fails: with the file missing the exception is \<^verbatim>\<open>FileNotFoundError\<close>, and
  with the year \<^verbatim>\<open>unknown\<close> it is \<^verbatim>\<open>ValueError\<close>; neither is a \<^verbatim>\<open>MalformedDataError\<close>.
\<close>

theorem load_data_error_kind_counterexample:
  "load_data int_of_text integer_indefinite (Inl FileNotFoundError) = Inl FileNotFoundError
   \<and> exception_name FileNotFoundError = ''FileNotFoundError''
   \<and> load_data int_of_text integer_indefinite (Inr text_years) = Inl ValueError
   \<and> exception_name ValueError = ''ValueError''
   \<and> ''FileNotFoundError'' \<noteq> ''MalformedDataError''
   \<and> ''ValueError'' \<noteq> ''MalformedDataError''"
  by (simp add: load_data_def text_years_def whr_columns_def survey_def int_of_text_def)

section \<open>The Insights tab reads the whole table\<close>

lemma series_eq_rows:
  "rows (boolean_index data (series_eq (getitem country_name data) c)) =
     filter (\<lambda>(label, r). country_name r = c) (rows data)"
  by (simp add: boolean_index_def series_eq_def getitem_def mask_select split_def comp_def)

lemma insights_shown_script:
  "insights_shown (script data selected yr) = insights_tab data selected"
  by (simp add: script_def Let_def split: sum.splits)

text \<open>
  C10. What the Insights tab shows does not depend on the year range: two runs on the same
  table with the same selection show the same. With one country selected it is computed
  from all rows of that country in the loaded table, whatever their year: the tab shows
  that no data is available when there is no such row, and otherwise the indicators of
  exactly these rows.
\<close>

theorem insights_independent_of_year_range:
  "insights_shown (script data selected yr1) = insights_shown (script data selected yr2)
   \<and> insights_shown (script data [c] yr) =
       (if filter (\<lambda>(label, r). country_name r = c) (rows data) = [] \<or> columns data = []
        then Inr (NoDataAvailable c)
        else insights_markdown c
               \<lparr>columns = columns data,
                rows = filter (\<lambda>(label, r). country_name r = c) (rows data)\<rparr>)"
proof -
  have "boolean_index data (series_eq (getitem country_name data) c) =
          \<lparr>columns = columns data, rows = filter (\<lambda>(label, r). country_name r = c) (rows data)\<rparr>"
    using series_eq_rows [of data c] by (simp add: boolean_index_def)
  then show ?thesis
    by (simp add: insights_shown_script insights_tab_def df_empty_def Let_def)
qed

theorem insights_independent_of_year_range_witness:
  "insights_shown (script gaps [''Mongolia''] (2016, 2016)) =
     insights_shown (script gaps [''Mongolia''] (2010, 2023))
   \<and> insights_shown (script gaps [''Mongolia''] (2016, 2016)) =
       Inr (KeyIndicators
         \<lparr>country = ''Mongolia'', average_happiness_score = Val 6,
          highest_happiness_score = Val 7, highest_year = [2017],
          lowest_happiness_score = Val 5, lowest_year = [2015],
          average_social_support = NaN, average_healthy_life_expectancy = NaN,
          average_log_gdp_per_capita = NaN\<rparr>)"
proof -
  have m: "insights_markdown ''Mongolia'' gaps =
      Inr (KeyIndicators
         \<lparr>country = ''Mongolia'', average_happiness_score = Val 6,
          highest_happiness_score = Val 7, highest_year = [2017],
          lowest_happiness_score = Val 5, lowest_year = [2015],
          average_social_support = NaN, average_healthy_life_expectancy = NaN,
          average_log_gdp_per_capita = NaN\<rparr>)"
    by (simp add: insights_markdown_def loc_year_def idxmax_def idxmin_def items_def
        getitem_def series_mean_def series_min_def series_max_def notna_def
        gaps_def observation_def)
  have f: "filter (\<lambda>(label, r). country_name r = ''Mongolia'') (rows gaps) = rows gaps"
    by (simp add: gaps_def observation_def)
  have g: "\<lparr>columns = columns gaps, rows = rows gaps\<rparr> = gaps"
    by simp
  have n: "columns gaps \<noteq> []" "rows gaps \<noteq> []"
    by (simp_all add: gaps_def whr_columns_def)
  show ?thesis
    using insights_independent_of_year_range
      [of gaps "[''Mongolia'']" "(2016, 2016)" "(2010, 2023)" "''Mongolia''" "(2016, 2016)"]
    unfolding f g m using n by metis
qed

section \<open>The Comparisons tab and the download\<close>

text \<open>
  The run never changes the loaded table. With at most one country selected it does not
  change the filtered table either, and the file offered for download has the columns of
  the loaded table.
\<close>

lemma script_keeps_data: "data_end (script data selected yr) = data"
  by (simp add: script_def Let_def split: sum.splits)

lemma script_view_read_only_up_to_one:
  "length selected \<le> 1 \<Longrightarrow>
     filtered_data_end (script data selected yr) = filtered_data data selected yr"
  by (simp add: script_def Let_def comparisons_tab_def split: sum.splits)

lemma download_header_up_to_one:
  "length selected \<le> 1 \<Longrightarrow> download (script data selected yr) = Some file \<Longrightarrow>
     header file = columns data"
  by (auto simp add: script_def Let_def comparisons_tab_def to_csv_def filtered_data_columns
      split: sum.splits)

lemma download_header_several:
  "length selected > 1 \<Longrightarrow> ''Country (Year)'' \<notin> set (columns data) \<Longrightarrow>
     map_option header (download (script data selected yr)) =
       Some (columns data @ [''Country (Year)''])"
  by (simp add: script_def Let_def comparisons_tab_def to_csv_def filtered_data_columns
      setitem_country_year_def insights_tab_def)

text \<open>
  C5 does not hold of the script. With Mongolia and Finland selected the Comparisons tab
  has added the column \<^verbatim>\<open>Country (Year)\<close> to the filtered table before line 145 writes the
  file, so the header of the download is the columns of the loaded table followed by
  \<^verbatim>\<open>Country (Year)\<close>. With Mongolia alone the header is the columns of the loaded table,
  and the table shown by the Detailed Metrics tab has those columns in both runs.
\<close>

theorem download_gains_column:
  "map_option header (download (script scenario [''Mongolia'', ''Finland''] (2010, 2023))) =
     Some (columns scenario @ [''Country (Year)''])
   \<and> map_option header (download (script scenario [''Mongolia''] (2010, 2023))) =
     Some (columns scenario)
   \<and> map_option columns (detailed_metrics (script scenario [''Mongolia'', ''Finland''] (2010, 2023)))
       = Some (columns scenario)"
  by (simp add: script_def Let_def comparisons_tab_def to_csv_def filtered_data_columns
      setitem_country_year_def insights_tab_def detailed_metrics_tab_def df_empty_def
      boolean_index_def series_eq_def getitem_def insights_markdown_def loc_year_def
      idxmax_def idxmin_def items_def series_max_def series_min_def
      scenario_def observation_def whr_columns_def)

text \<open>
  C9 does not hold of the script. With Mongolia and Finland selected the filtered table at
  the end of the run is not the table the filter built: the Comparisons tab has written the
  column \<^verbatim>\<open>Country (Year)\<close> into it. The loaded table is unchanged.
\<close>

theorem comparisons_tab_writes_view:
  "filtered_data_end (script scenario [''Mongolia'', ''Finland''] (2010, 2023)) \<noteq>
     filtered_data scenario [''Mongolia'', ''Finland''] (2010, 2023)
   \<and> columns (filtered_data_end (script scenario [''Mongolia'', ''Finland''] (2010, 2023))) =
       columns scenario @ [''Country (Year)'']
   \<and> data_end (script scenario [''Mongolia'', ''Finland''] (2010, 2023)) = scenario"
proof -
  have "columns (filtered_data_end (script scenario [''Mongolia'', ''Finland''] (2010, 2023))) =
       columns scenario @ [''Country (Year)'']"
    by (simp add: script_def Let_def comparisons_tab_def insights_tab_def
        setitem_country_year_def filtered_data_columns scenario_def whr_columns_def)
  moreover have "columns (filtered_data scenario [''Mongolia'', ''Finland''] (2010, 2023)) =
       columns scenario"
    by (simp add: filtered_data_columns)
  ultimately show ?thesis
    by (auto simp add: script_keeps_data)
qed

end
